theory Spec2Isabelle
  imports Complex_Main "HOL-Library.Char_ord" "HOL-Library.List_Lexorder" "HOL-Library.Product_Lexorder"
begin

section \<open>Characters and Python string operations\<close>

text \<open>
  Log lines are Python \<open>str\<close> values. They are modelled as lists of 8-bit characters, read
  as the code points below 256; the character classes below are those of Python on that
  range (\<open>str.isspace\<close> and the regular-expression classes \<open>\s\<close> and \<open>\d\<close>).
\<close>

definition is_space :: "char \<Rightarrow> bool" where
  "is_space c = (c \<in> set [CHR 0x09, CHR 0x0A, CHR 0x0B, CHR 0x0C, CHR 0x0D,
                           CHR 0x1C, CHR 0x1D, CHR 0x1E, CHR 0x1F, CHR 0x20, CHR 0x85, CHR 0xA0])"

definition is_digit :: "char \<Rightarrow> bool" where
  "is_digit c = (c \<in> set ''0123456789'')"

definition is_hex_colon :: "char \<Rightarrow> bool" where
  "is_hex_colon c = (c \<in> set ''abcdefABCDEF0123456789:'')"

definition is_alpha_sp :: "char \<Rightarrow> bool" where
  "is_alpha_sp c = (c \<in> set ''ABCDEFGHIJKLMNOPQRSTUVWXYZabcdefghijklmnopqrstuvwxyz '')"

definition is_upper :: "char \<Rightarrow> bool" where
  "is_upper c = (let n = (of_char c :: nat) in
     (65 \<le> n \<and> n \<le> 90) \<or> (192 \<le> n \<and> n \<le> 222 \<and> n \<noteq> 215))"

definition lower_char :: "char \<Rightarrow> char" where
  "lower_char c = (if is_upper c then char_of (of_char c + 32 :: nat) else c)"

definition py_lower :: "string \<Rightarrow> string" where
  "py_lower s = map lower_char s"

text \<open>
  \<open>str.capitalize\<close>: the first character upper-cased, the rest lower-cased. The source
  applies it only to text matched by \<open>[A-Za-z ]+\<close>, so the upper-casing is given for the
  ASCII letters.
\<close>

definition upper_char :: "char \<Rightarrow> char" where
  "upper_char c = (let n = (of_char c :: nat) in
     if 97 \<le> n \<and> n \<le> 122 then char_of (n - 32) else c)"

fun py_capitalize :: "string \<Rightarrow> string" where
  "py_capitalize [] = []"
| "py_capitalize (c # cs) = upper_char c # map lower_char cs"

text \<open>\<open>str.strip()\<close>: leading and trailing white space removed.\<close>

definition py_strip :: "string \<Rightarrow> string" where
  "py_strip s = rev (dropWhile is_space (rev (dropWhile is_space s)))"

text \<open>\<open>str.split(sep)\<close> for a one-character separator: never empty, \<open>.split(sep) = []\<close>.\<close>

fun py_split :: "char \<Rightarrow> string \<Rightarrow> string list" where
  "py_split sep [] = [[]]"
| "py_split sep (c # cs) =
     (if c = sep then [] # py_split sep cs
      else (case py_split sep cs of p # ps \<Rightarrow> (c # p) # ps | [] \<Rightarrow> [[c]]))"


text \<open>\<open>str.split()\<close> without argument: the maximal runs of characters that are not white space.\<close>

fun split_ws_from :: "string \<Rightarrow> string \<Rightarrow> string list" where
  "split_ws_from cur [] = (if cur = [] then [] else [cur])"
| "split_ws_from cur (c # cs) =
     (if is_space c then (if cur = [] then split_ws_from [] cs else cur # split_ws_from [] cs)
      else split_ws_from (cur @ [c]) cs)"

definition py_split_ws :: "string \<Rightarrow> string list" where
  "py_split_ws s = split_ws_from [] s"

text \<open>
  Exceptions are values. Indexing raises \<open>IndexError\<close> out of range (negative indices count
  from the end); \<open>int(s)\<close> is given for the strings the parser passes to it, sequences of
  decimal digits, and is \<open>ValueError\<close> on anything else. Python integers are unbounded, and
  the conversion is taken without the interpreter's optional limit on the number of digits.
\<close>

datatype py_error = IndexError | ValueError

definition py_index :: "'a list \<Rightarrow> int \<Rightarrow> py_error + 'a" where
  "py_index xs i =
     (if 0 \<le> i \<and> i < int (length xs) then Inr (xs ! nat i)
      else if i < 0 \<and> - int (length xs) \<le> i then Inr (xs ! nat (int (length xs) + i))
      else Inl IndexError)"

definition digit_val :: "char \<Rightarrow> int" where
  "digit_val c = int (of_char c) - 48"

definition digits_val :: "string \<Rightarrow> int" where
  "digits_val s = foldl (\<lambda>acc c. 10 * acc + digit_val c) 0 s"

definition py_int :: "string \<Rightarrow> py_error + int" where
  "py_int s = (if s \<noteq> [] \<and> list_all is_digit s then Inr (digits_val s) else Inl ValueError)"

definition bindE :: "'e + 'a \<Rightarrow> ('a \<Rightarrow> 'e + 'b) \<Rightarrow> 'e + 'b" where
  "bindE m f = (case m of Inl e \<Rightarrow> Inl e | Inr x \<Rightarrow> f x)"

section \<open>Regular expressions\<close>

text \<open>
  Python's \<open>re\<close> matches by backtracking. A pattern is modelled as a function from the text
  at the current position to the list of texts that may remain after a match, in the order
  in which the backtracking matcher tries them; the first element is the match Python
  reports. A capturing group is the text consumed between two positions.
\<close>

type_synonym matcher = "string \<Rightarrow> string list"

definition one :: "(char \<Rightarrow> bool) \<Rightarrow> matcher" where
  "one P s = (case s of [] \<Rightarrow> [] | c # cs \<Rightarrow> if P c then [cs] else [])"

definition seq :: "matcher \<Rightarrow> matcher \<Rightarrow> matcher" where
  "seq p q s = concat (map q (p s))"

text \<open>Greedy \<open>P*\<close>: the longest run first. Lazy \<open>P*?\<close>: the shortest first.\<close>

fun many :: "(char \<Rightarrow> bool) \<Rightarrow> matcher" where
  "many P [] = [[]]"
| "many P (c # cs) = (if P c then many P cs @ [c # cs] else [c # cs])"

fun lazy_many :: "(char \<Rightarrow> bool) \<Rightarrow> matcher" where
  "lazy_many P [] = [[]]"
| "lazy_many P (c # cs) = (c # cs) # (if P c then lazy_many P cs else [])"

definition many1 :: "(char \<Rightarrow> bool) \<Rightarrow> matcher" where
  "many1 P = seq (one P) (many P)"

text \<open>\<open>p{n}\<close>, and greedy \<open>p{0,k}\<close>.\<close>

fun times :: "nat \<Rightarrow> matcher \<Rightarrow> matcher" where
  "times 0 p s = [s]"
| "times (Suc n) p s = seq p (times n p) s"

fun upto_times :: "nat \<Rightarrow> matcher \<Rightarrow> matcher" where
  "upto_times 0 p s = [s]"
| "upto_times (Suc k) p s = seq p (upto_times k p) s @ [s]"

fun lit :: "string \<Rightarrow> matcher" where
  "lit [] s = [s]"
| "lit (x # xs) s = seq (one (\<lambda>c. c = x)) (lit xs) s"

text \<open>\<open>$\<close> without \<open>MULTILINE\<close>: at the end of the text, or before a final newline.\<close>

definition eol :: matcher where
  "eol s = (if s = [] \<or> s = [CHR 0x0A] then [s] else [])"

definition consumed :: "string \<Rightarrow> string \<Rightarrow> string" where
  "consumed s r = take (length s - length r) s"

text \<open>
  \<open>re.search\<close> takes the first match at the leftmost position where there is one;
  \<open>re.match\<close> only tries the start of the text. \<open>re.findall\<close> collects the matches from left
  to right without overlap: after a match, the characters it consumed are skipped. Here the
  matcher returns the captured group with the remaining text.
\<close>

definition re_match :: "(string \<Rightarrow> 'a list) \<Rightarrow> string \<Rightarrow> 'a option" where
  "re_match m s = (case m s of [] \<Rightarrow> None | x # _ \<Rightarrow> Some x)"

fun re_search :: "(string \<Rightarrow> 'a list) \<Rightarrow> string \<Rightarrow> 'a option" where
  "re_search m [] = re_match m []"
| "re_search m (c # cs) = (case m (c # cs) of [] \<Rightarrow> re_search m cs | x # _ \<Rightarrow> Some x)"

fun findall :: "(string \<Rightarrow> (string \<times> string) list) \<Rightarrow> nat \<Rightarrow> string \<Rightarrow> string list" where
  "findall m (Suc k) (c # cs) = findall m k cs"
| "findall m 0 (c # cs) =
     (case m (c # cs) of
        [] \<Rightarrow> findall m 0 cs
      | (g, r) # _ \<Rightarrow> g # findall m (length cs - length r) cs)"
| "findall m k [] = (case m [] of [] \<Rightarrow> [] | (g, r) # _ \<Rightarrow> [g])"

section \<open>The access-log parser\<close>

text \<open>
  The patterns of \<open>parse_nginx_log\<close>, each written with the combinators above:
  \<^item> \<^verbatim>\<open>"([^"]*)"\<close> (quoted fields) and \<^verbatim>\<open>\[([^\]]+)\]\<close> (bracketed fields), for \<open>re.findall\<close>;
  \<^item> \<^verbatim>\<open>"\s*(\d{3})\s+(\d+)\s\<close> (status and size) and \<^verbatim>\<open>" ([\d\.]+) "\<close> (request time), for
    \<open>re.search\<close>;
  \<^item> \<^verbatim>\<open>^\d{1,3}(\.\d{1,3}){3}$|^[a-fA-F0-9:]+$\<close> (\<open>ip_regex\<close>), for \<open>re.match\<close>.
\<close>

definition dquote :: char where
  "dquote = CHR 0x22"

definition quoted_re :: "string \<Rightarrow> (string \<times> string) list" where
  "quoted_re s =
     [(consumed r0 r1, r2).
        r0 \<leftarrow> one (\<lambda>c. c = dquote) s,
        r1 \<leftarrow> many (\<lambda>c. c \<noteq> dquote) r0,
        r2 \<leftarrow> one (\<lambda>c. c = dquote) r1]"

definition bracketed_re :: "string \<Rightarrow> (string \<times> string) list" where
  "bracketed_re s =
     [(consumed r0 r1, r2).
        r0 \<leftarrow> one (\<lambda>c. c = CHR ''['') s,
        r1 \<leftarrow> many1 (\<lambda>c. c \<noteq> CHR '']'') r0,
        r2 \<leftarrow> one (\<lambda>c. c = CHR '']'') r1]"

definition status_re :: "string \<Rightarrow> (string \<times> string) list" where
  "status_re s =
     [(consumed r1 r2, consumed r3 r4).
        r0 \<leftarrow> one (\<lambda>c. c = dquote) s,
        r1 \<leftarrow> many is_space r0,
        r2 \<leftarrow> times 3 (one is_digit) r1,
        r3 \<leftarrow> many1 is_space r2,
        r4 \<leftarrow> many1 is_digit r3,
        r5 \<leftarrow> one is_space r4]"

definition req_time_re :: "string \<Rightarrow> string list" where
  "req_time_re s =
     [consumed r0 r1.
        r0 \<leftarrow> lit [dquote, CHR '' ''] s,
        r1 \<leftarrow> many1 (\<lambda>c. is_digit c \<or> c = CHR ''.'') r0,
        r2 \<leftarrow> lit [CHR '' '', dquote] r1]"

definition digits_1_3 :: matcher where
  "digits_1_3 = seq (one is_digit) (upto_times 2 (one is_digit))"

definition ip_regex :: matcher where
  "ip_regex s =
     seq digits_1_3 (seq (times 3 (seq (one (\<lambda>c. c = CHR ''.'')) digits_1_3)) eol) s
     @ seq (many1 is_hex_colon) eol s"

definition ip_regex_match :: "string \<Rightarrow> bool" where
  "ip_regex_match s = (re_match ip_regex s \<noteq> None)"

text \<open>
  One row of the table of records: the dictionary built by \<open>parse_nginx_log\<close>, with the
  columns the dashboard adds to the data frame afterwards (\<open>None\<close> while a column has not
  been added). A cell of a data frame may be null, so \<open>path\<close> and \<open>referrer\<close> are optional
  as well; the parser always fills them. The time is whatever \<open>datetime.strptime\<close> returns;
  that function is a parameter, \<open>None\<close> standing for the exception the source catches.
  The key \<open>method\<close> of the source is the field \<open>http_method\<close>.
\<close>

record 't access_record =
  ip :: string
  time :: "'t option"
  http_method :: string
  path :: "string option"
  protocol :: string
  status :: "int option"
  size :: "int option"
  referrer :: "string option"
  user_agent :: string
  req_time :: "string option"
  proxy_chain :: string
  server :: "string option"
  extension :: "string option"
  is_bot :: "bool option"
  potential_sql_injection :: "bool option"
  potential_xss :: "bool option"

text \<open>Lines 53 and 54: the client address taken from the proxy chain.\<close>

definition real_ip_of :: "string \<Rightarrow> py_error + string" where
  "real_ip_of chain =
     (if chain \<noteq> [] then bindE (py_index (py_split CHR '','' chain) 0) (\<lambda>t. Inr (py_strip t))
      else Inr ''-'')"

definition ip_of :: "string \<Rightarrow> string" where
  "ip_of real_ip = (if ip_regex_match real_ip then real_ip else ''-'')"

text \<open>Lines 32 to 38: status and size, both absent when the pattern is not found.\<close>

definition status_size_of :: "string \<Rightarrow> py_error + (int option \<times> int option)" where
  "status_size_of line =
     (case re_search status_re line of
        Some (g1, g2) \<Rightarrow>
          bindE (py_int g1) (\<lambda>st. bindE (py_int g2) (\<lambda>sz. Inr (Some st, Some sz)))
      | None \<Rightarrow> Inr (None, None))"

text \<open>Lines 43 to 46: method, path and protocol, empty unless the request has three parts.\<close>

definition request_parts :: "string \<Rightarrow> string \<times> string \<times> string" where
  "request_parts request =
     (case py_split_ws request of
        [a, b, c] \<Rightarrow> (a, b, c)
      | _ \<Rightarrow> ([], [], []))"



definition hex_colon_shape :: "string \<Rightarrow> bool" where
  "hex_colon_shape s = (s \<noteq> [] \<and> list_all is_hex_colon s)"

definition first_entry :: "string \<Rightarrow> string" where
  "first_entry chain = py_strip (takeWhile (\<lambda>c. c \<noteq> CHR '','') chain)"

text \<open>
  The body of the loop for one line. \<open>Inr None\<close> is the \<open>continue\<close> of the length check,
  \<open>Inl e\<close> an exception raised inside the \<open>try\<close>.
\<close>

definition parse_line_body :: "(string \<Rightarrow> 't option) \<Rightarrow> string \<Rightarrow> py_error + 't access_record option" where
  "parse_line_body strptime line =
     (let quoted = findall quoted_re 0 line;
          bracketed = findall bracketed_re 0 line
      in if length quoted < 4 \<or> length bracketed < 1 then Inr None
         else
           bindE (py_index bracketed 0) (\<lambda>time_str.
           bindE (py_index quoted 0) (\<lambda>request.
           bindE (py_index quoted 1) (\<lambda>referrer'.
           bindE (py_index quoted 2) (\<lambda>user_agent'.
           bindE (py_index quoted 3) (\<lambda>proxy_chain'.
           bindE (status_size_of line) (\<lambda>(status', size').
           let req_time' = re_search req_time_re line;
               (method', path', protocol') = request_parts request;
               time' = strptime time_str
           in bindE (real_ip_of proxy_chain') (\<lambda>real_ip.
              Inr (Some \<lparr>ip = ip_of real_ip, time = time', http_method = method',
                         path = Some path', protocol = protocol', status = status',
                         size = size', referrer = Some referrer', user_agent = user_agent',
                         req_time = req_time', proxy_chain = proxy_chain',
                         server = None, extension = None, is_bot = None,
                         potential_sql_injection = None, potential_xss = None\<rparr>)))))))))"

text \<open>\<open>except Exception: continue\<close>: an exception skips the line as the length check does.\<close>

definition parse_line :: "(string \<Rightarrow> 't option) \<Rightarrow> string \<Rightarrow> 't access_record option" where
  "parse_line strptime line =
     (case parse_line_body strptime line of Inr (Some r) \<Rightarrow> Some r | _ \<Rightarrow> None)"


section \<open>The PHP error-log parser\<close>

text \<open>
  The pattern of \<open>parse_php_error_log\<close>, \<^verbatim>\<open>\[(.*?)\]\s+PHP\s+([A-Za-z ]+):\s*(.*)\<close>, for
  \<open>re.match\<close>. The dot matches every character but the newline.
\<close>

definition php_re :: "string \<Rightarrow> (string \<times> string \<times> string) list" where
  "php_re s =
     [(consumed r0 r1, consumed r5 r6, consumed r8 r9).
        r0 \<leftarrow> one (\<lambda>c. c = CHR ''['') s,
        r1 \<leftarrow> lazy_many (\<lambda>c. c \<noteq> CHR 0x0A) r0,
        r2 \<leftarrow> one (\<lambda>c. c = CHR '']'') r1,
        r3 \<leftarrow> many1 is_space r2,
        r4 \<leftarrow> lit ''PHP'' r3,
        r5 \<leftarrow> many1 is_space r4,
        r6 \<leftarrow> many1 is_alpha_sp r5,
        r7 \<leftarrow> one (\<lambda>c. c = CHR '':'') r6,
        r8 \<leftarrow> many is_space r7,
        r9 \<leftarrow> many (\<lambda>c. c \<noteq> CHR 0x0A) r8]"

record error_record =
  err_time :: string
  err_type :: string
  err_message :: string

text \<open>Lines 88 to 96: the label of the severity text captured by the second group.\<close>

definition error_type_label :: "string \<Rightarrow> string" where
  "error_type_label raw =
     (let error_type = py_lower (py_strip raw)
      in if error_type = ''fatal error'' then ''Fatal Error (Critical)''
         else if error_type = ''warning'' then ''Warning''
         else if error_type = ''notice'' then ''Info''
         else py_capitalize error_type)"

definition parse_php_error_line :: "string \<Rightarrow> error_record option" where
  "parse_php_error_line line =
     (case re_match php_re line of
        None \<Rightarrow> None
      | Some (time_str, error_type, message) \<Rightarrow>
          Some \<lparr>err_time = time_str, err_type = error_type_label error_type,
                err_message = message\<rparr>)"

fun parse_php_error_log :: "string list \<Rightarrow> error_record list" where
  "parse_php_error_log [] = []"
| "parse_php_error_log (line # lines) =
     (case parse_php_error_line line of
        None \<Rightarrow> parse_php_error_log lines
      | Some r \<Rightarrow> r # parse_php_error_log lines)"

text \<open>
  For comparison, the reading under which every word of the severity text is capitalised
  (Python's \<open>str.title\<close> on letters and spaces).
\<close>

fun title_from :: "bool \<Rightarrow> string \<Rightarrow> string" where
  "title_from b [] = []"
| "title_from b (c # cs) =
     (if c = CHR '' '' then c # title_from True cs
      else (if b then upper_char c else lower_char c) # title_from False cs)"

definition title_case :: "string \<Rightarrow> string" where
  "title_case s = title_from True s"

section \<open>Field derivation\<close>




section \<open>Security heuristics on the table of records\<close>

text \<open>
  A data frame is the list of its rows. The pandas operations the detectors use are given
  cell by cell. \<open>Series.str.contains(pat, case=False, na=...)\<close> searches each string cell for
  the pattern, ignoring case, and yields the \<open>na\<close> value on a null cell (null again when
  \<open>na\<close> is not given); every pattern of the source is an alternation of literal words.
  \<open>Series.isin\<close> is false on a null cell. The operators \<open>&\<close> and \<open>|\<close> on two columns fill a
  null operand or result with false. None of these raises on a null cell. The frames are
  those the dashboard builds: every row has the columns of the parser.
\<close>

type_synonym 't frame = "'t access_record list"

fun ilit :: "string \<Rightarrow> matcher" where
  "ilit [] s = [s]"
| "ilit (x # xs) s = seq (one (\<lambda>c. lower_char c = lower_char x)) (ilit xs) s"

definition alts :: "matcher list \<Rightarrow> matcher" where
  "alts ms s = concat (map (\<lambda>m. m s) ms)"

definition str_contains :: "string list \<Rightarrow> bool option \<Rightarrow> string option \<Rightarrow> bool option" where
  "str_contains pats na cell =
     (case cell of
        None \<Rightarrow> na
      | Some s \<Rightarrow> Some (re_search (alts (map ilit pats)) s \<noteq> None))"

definition isin :: "int list \<Rightarrow> int option \<Rightarrow> bool option" where
  "isin vals cell = (case cell of None \<Rightarrow> Some False | Some v \<Rightarrow> Some (v \<in> set vals))"

definition and_na :: "bool option \<Rightarrow> bool option \<Rightarrow> bool" where
  "and_na a b = (case a of None \<Rightarrow> False | Some x \<Rightarrow> x \<and> b = Some True)"

definition or_na :: "bool option \<Rightarrow> bool option \<Rightarrow> bool" where
  "or_na a b = (case a of None \<Rightarrow> False | Some x \<Rightarrow> x \<or> b = Some True)"



text \<open>
  \<open>groupby(keys).size().reset_index(name='count')\<close>: one line per key, in the order of the
  keys, with the number of rows of that key; a row with a null key belongs to no group.
\<close>

definition group_size :: "('a \<Rightarrow> 'k::linorder option) \<Rightarrow> 'a list \<Rightarrow> ('k \<times> nat) list" where
  "group_size key rows =
     (let ks = List.map_filter key rows
      in map (\<lambda>k. (k, count_list ks k)) (sort (remdups ks)))"

text \<open>
  Each detector returns the input frame as it is after the call, with the frame it returns:
  \<open>detect_sql_injection\<close> and \<open>detect_xss\<close> assign a column of the frame they are given.
\<close>

definition brute_force_mask :: "'t access_record \<Rightarrow> bool" where
  "brute_force_mask r =
     and_na (str_contains [''login''] None (path r)) (isin [401, 403] (status r))"

definition detect_brute_force :: "'t frame \<Rightarrow> 't frame \<times> ((string \<times> string) \<times> nat) list" where
  "detect_brute_force df =
     (let brute_force_df = filter brute_force_mask df;
          brute_force_group = group_size (\<lambda>r. map_option (Pair (ip r)) (path r)) brute_force_df
      in (df, filter (\<lambda>(k, count). count > 5) brute_force_group))"

definition sql_keywords :: "string list" where
  "sql_keywords = [''SELECT'', ''UNION'', ''DROP'', ''INSERT'', ''UPDATE'', ''DELETE'', ''WHERE'', ''OR'', ''AND'']"

definition detect_sql_injection :: "'t frame \<Rightarrow> 't frame \<times> 't frame" where
  "detect_sql_injection df =
     (let df' = map (\<lambda>r. r\<lparr>potential_sql_injection :=
                   Some (or_na (str_contains sql_keywords (Some False) (path r))
                               (str_contains sql_keywords (Some False) (referrer r)))\<rparr>) df
      in (df', filter (\<lambda>r. potential_sql_injection r = Some True) df'))"

definition xss_patterns :: "string list" where
  "xss_patterns = [''<script>'', ''javascript:'', ''onerror='', ''onload='']"

definition detect_xss :: "'t frame \<Rightarrow> 't frame \<times> 't frame" where
  "detect_xss df =
     (let df' = map (\<lambda>r. r\<lparr>potential_xss :=
                   Some (or_na (str_contains xss_patterns (Some False) (path r))
                               (str_contains xss_patterns (Some False) (referrer r)))\<rparr>) df
      in (df', filter (\<lambda>r. potential_xss r = Some True) df'))"

text \<open>
  Lines 414 to 420: the statistics per address. The aggregation \<open>count\<close> of the \<open>status\<close>
  column counts the cells that are not null. The rate is a quotient of two counts; where
  pandas has the not-a-number of \<open>0 / 0\<close>, which fails every comparison, the quotient here
  is \<open>0\<close>, which fails \<open>> 0.5\<close> as well. The sort is taken as stable. The formatting of the
  rate as a percentage (line 421) is left out.
\<close>

definition error_stats :: "'t frame \<Rightarrow> (string \<times> nat \<times> nat \<times> rat) list" where
  "error_stats df =
     map (\<lambda>i.
       let g = filter (\<lambda>r. ip r = i) df;
           total_requests = length (filter (\<lambda>r. status r \<noteq> None) g);
           error_requests = length (filter (\<lambda>r. case status r of None \<Rightarrow> False | Some s \<Rightarrow> s \<ge> 400) g)
       in (i, total_requests, error_requests, of_nat error_requests / of_nat total_requests))
     (sort (remdups (map ip df)))"

definition high_error_ips :: "'t frame \<Rightarrow> (string \<times> nat \<times> nat \<times> rat) list" where
  "high_error_ips df =
     take 10 (sort_key (\<lambda>(i, total, errors, rate). - rate)
       (filter (\<lambda>(i, total, errors, rate). rate > 1 / 2 \<and> total > 10) (error_stats df)))"

text \<open>
  For comparison, the statistics as the specification words them: the total of an address
  is the number of all its records.
\<close>

definition error_stats_spec :: "'t frame \<Rightarrow> (string \<times> nat \<times> nat \<times> rat) list" where
  "error_stats_spec df =
     map (\<lambda>i.
       let g = filter (\<lambda>r. ip r = i) df;
           total_requests = length g;
           error_requests = length (filter (\<lambda>r. case status r of None \<Rightarrow> False | Some s \<Rightarrow> s \<ge> 400) g)
       in (i, total_requests, error_requests, of_nat error_requests / of_nat total_requests))
     (sort (remdups (map ip df)))"

definition high_error_ips_spec :: "'t frame \<Rightarrow> (string \<times> nat \<times> nat \<times> rat) list" where
  "high_error_ips_spec df =
     take 10 (sort_key (\<lambda>(i, total, errors, rate). - rate)
       (filter (\<lambda>(i, total, errors, rate). rate > 1 / 2 \<and> total > 10) (error_stats_spec df)))"

section \<open>Concrete inputs\<close>

text \<open>
  A time parser that rejects every text, and a row with a given address, path, status and
  referrer, for evaluating the functions above on concrete lines and tables.
\<close>

definition no_time :: "string \<Rightarrow> unit option" where
  "no_time s = None"

definition row :: "string \<Rightarrow> string option \<Rightarrow> int option \<Rightarrow> string option \<Rightarrow> unit access_record" where
  "row i p st rf =
     \<lparr>ip = i, time = None, http_method = ''GET'', path = p, protocol = ''HTTP/1.1'', status = st,
      size = None, referrer = rf, user_agent = ''ua'', req_time = None, proxy_chain = i,
      server = None, extension = None, is_bot = None,
      potential_sql_injection = None, potential_xss = None\<rparr>"

section \<open>Properties of the patterns\<close>

lemma one_iff: "r \<in> set (one P s) \<longleftrightarrow> (\<exists>c. s = c # r \<and> P c)"
  by (cases s) (auto simp: one_def)

lemma seq_iff: "r \<in> set (seq p q s) \<longleftrightarrow> (\<exists>m \<in> set (p s). r \<in> set (q m))"
  by (auto simp: seq_def)

lemma many_sound: "r \<in> set (many P s) \<Longrightarrow> \<exists>p. s = p @ r \<and> list_all P p"
proof (induction s)
  case Nil
  then show ?case by simp
next
  case (Cons c cs)
  show ?case
  proof (cases "r = c # cs")
    case True
    then show ?thesis by simp
  next
    case False
    with Cons.prems have "P c" and "r \<in> set (many P cs)"
      by (auto split: if_splits)
    with Cons.IH obtain p where "cs = p @ r" "list_all P p" by blast
    then have "c # cs = (c # p) @ r \<and> list_all P (c # p)" using \<open>P c\<close> by simp
    then show ?thesis by blast
  qed
qed

lemma many1_sound: "r \<in> set (many1 P s) \<Longrightarrow> \<exists>p. s = p @ r \<and> p \<noteq> [] \<and> list_all P p"
proof -
  assume "r \<in> set (many1 P s)"
  then obtain c m where s: "s = c # m" "P c" and r: "r \<in> set (many P m)"
    by (auto simp: many1_def seq_iff one_iff)
  from many_sound [OF r] obtain p where "m = p @ r" "list_all P p" by blast
  with s have "s = (c # p) @ r \<and> c # p \<noteq> [] \<and> list_all P (c # p)" by simp
  then show ?thesis by blast
qed

lemma consumed_append [simp]: "consumed (p @ r) r = p"
  by (simp add: consumed_def)

lemma times3_sound:
  "r \<in> set (times 3 (one P) s) \<Longrightarrow> \<exists>a b c. s = a # b # c # r \<and> P a \<and> P b \<and> P c"
  by (auto simp: numeral_3_eq_3 seq_iff one_iff)

lemma digit_val_range: "is_digit c \<Longrightarrow> 0 \<le> digit_val c \<and> digit_val c \<le> 9"
  by (auto simp: is_digit_def digit_val_def)

lemma status_re_sound:
  assumes "(g1, g2) \<in> set (status_re s)"
  shows "length g1 = 3 \<and> list_all is_digit g1 \<and> g2 \<noteq> [] \<and> list_all is_digit g2"
proof -
  from assms obtain r1 r2 r3 r4
    where g: "g1 = consumed r1 r2" "g2 = consumed r3 r4"
      and r2: "r2 \<in> set (times 3 (one is_digit) r1)"
      and r4: "r4 \<in> set (many1 is_digit r3)"
    by (auto simp: status_re_def)
  from times3_sound [OF r2] obtain a b c where "r1 = [a, b, c] @ r2" "is_digit a" "is_digit b" "is_digit c"
    by auto
  moreover from many1_sound [OF r4] obtain p where "r3 = p @ r4" "p \<noteq> []" "list_all is_digit p"
    by blast
  ultimately show ?thesis using g by (simp add: consumed_def)
qed

lemma re_search_sound: "re_search m s = Some x \<Longrightarrow> \<exists>t. x \<in> set (m t)"
proof (induction s)
  case Nil
  then have "x \<in> set (m [])" by (cases "m []") (auto simp: re_match_def)
  then show ?case by blast
next
  case (Cons c cs)
  show ?case
  proof (cases "m (c # cs)")
    case Nil
    with Cons show ?thesis by simp
  next
    case (Cons y ys)
    with Cons.prems have "x \<in> set (m (c # cs))" by simp
    then show ?thesis by blast
  qed
qed

lemma digits_val_3:
  assumes "length g = 3" "list_all is_digit g"
  shows "0 \<le> digits_val g \<and> digits_val g \<le> 999"
proof -
  from assms(1) obtain a b c where g: "g = [a, b, c]"
    by (auto simp: numeral_3_eq_3 length_Suc_conv)
  with assms(2) have "is_digit a" "is_digit b" "is_digit c" by simp_all
  then have "0 \<le> digit_val a \<and> digit_val a \<le> 9" "0 \<le> digit_val b \<and> digit_val b \<le> 9"
    "0 \<le> digit_val c \<and> digit_val c \<le> 9"
    by (simp_all add: digit_val_range)
  then show ?thesis by (simp add: g digits_val_def)
qed

lemma py_int_digits: "s \<noteq> [] \<Longrightarrow> list_all is_digit s \<Longrightarrow> py_int s = Inr (digits_val s)"
  by (simp add: py_int_def)

lemma py_split_nonempty: "py_split sep s \<noteq> []"
  by (induction s) (auto split: list.splits)

lemma real_ip_of_total: "\<exists>t. real_ip_of chain = Inr t"
  using py_split_nonempty [of "CHR '',''" chain]
  by (cases "py_split CHR '','' chain") (auto simp: real_ip_of_def py_index_def bindE_def)

lemma status_size_of_ok:
  "\<exists>st sz. status_size_of line = Inr (st, sz) \<and>
     (st = None \<longleftrightarrow> re_search status_re line = None) \<and>
     (\<forall>n. st = Some n \<longrightarrow> 0 \<le> n \<and> n \<le> 999) \<and>
     (sz = None \<longleftrightarrow> st = None)"
proof (cases "re_search status_re line")
  case None
  then show ?thesis by (simp add: status_size_of_def)
next
  case (Some g)
  obtain g1 g2 where g: "g = (g1, g2)" by (cases g)
  from re_search_sound [OF Some] g obtain t where "(g1, g2) \<in> set (status_re t)" by blast
  from status_re_sound [OF this]
  have d: "length g1 = 3" "list_all is_digit g1" "g2 \<noteq> []" "list_all is_digit g2" by simp_all
  then have "g1 \<noteq> []" by auto
  with d have "py_int g1 = Inr (digits_val g1)" "py_int g2 = Inr (digits_val g2)"
    by (simp_all add: py_int_digits)
  with Some g digits_val_3 [OF d(1,2)] show ?thesis
    by (simp add: status_size_of_def bindE_def)
qed

lemma parse_line_body_guard:
  assumes "4 \<le> length (findall quoted_re 0 line)" "1 \<le> length (findall bracketed_re 0 line)"
  shows "\<exists>st sz rip. status_size_of line = Inr (st, sz) \<and>
           real_ip_of (findall quoted_re 0 line ! 3) = Inr rip \<and>
           parse_line_body strptime line =
             Inr (Some \<lparr>ip = ip_of rip, time = strptime (findall bracketed_re 0 line ! 0), http_method =
                          fst (request_parts (findall quoted_re 0 line ! 0)),
                        path = Some (fst (snd (request_parts (findall quoted_re 0 line ! 0)))),
                        protocol = snd (snd (request_parts (findall quoted_re 0 line ! 0))),
                        status = st, size = sz,
                        referrer = Some (findall quoted_re 0 line ! 1),
                        user_agent = findall quoted_re 0 line ! 2,
                        req_time = re_search req_time_re line,
                        proxy_chain = findall quoted_re 0 line ! 3,
                        server = None, extension = None, is_bot = None,
                        potential_sql_injection = None, potential_xss = None\<rparr>)"
proof -
  obtain st sz where ss: "status_size_of line = Inr (st, sz)"
    using status_size_of_ok [of line] by blast
  obtain rip where rip: "real_ip_of (findall quoted_re 0 line ! 3) = Inr rip"
    using real_ip_of_total by blast
  have ix: "py_index (findall bracketed_re 0 line) 0 = Inr (findall bracketed_re 0 line ! 0)"
    "py_index (findall quoted_re 0 line) 0 = Inr (findall quoted_re 0 line ! 0)"
    "py_index (findall quoted_re 0 line) 1 = Inr (findall quoted_re 0 line ! 1)"
    "py_index (findall quoted_re 0 line) 2 = Inr (findall quoted_re 0 line ! 2)"
    "py_index (findall quoted_re 0 line) 3 = Inr (findall quoted_re 0 line ! 3)"
    using assms by (auto simp: py_index_def)
  have "parse_line_body strptime line =
             Inr (Some \<lparr>ip = ip_of rip, time = strptime (findall bracketed_re 0 line ! 0), http_method =
                          fst (request_parts (findall quoted_re 0 line ! 0)),
                        path = Some (fst (snd (request_parts (findall quoted_re 0 line ! 0)))),
                        protocol = snd (snd (request_parts (findall quoted_re 0 line ! 0))),
                        status = st, size = sz,
                        referrer = Some (findall quoted_re 0 line ! 1),
                        user_agent = findall quoted_re 0 line ! 2,
                        req_time = re_search req_time_re line,
                        proxy_chain = findall quoted_re 0 line ! 3,
                        server = None, extension = None, is_bot = None,
                        potential_sql_injection = None, potential_xss = None\<rparr>)"
  proof -
    have "\<not> (length (findall quoted_re 0 line) < 4 \<or> length (findall bracketed_re 0 line) < 1)"
      using assms by auto
    then show ?thesis
      unfolding parse_line_body_def Let_def
      by (simp only: if_False ix ss rip) (simp add: bindE_def split_beta rip)
  qed
  with ss rip show ?thesis by blast
qed

lemma parse_line_body_skip:
  "\<not> (4 \<le> length (findall quoted_re 0 line) \<and> 1 \<le> length (findall bracketed_re 0 line))
   \<Longrightarrow> parse_line_body strptime line = Inr None"
  unfolding parse_line_body_def Let_def by (auto simp: Suc_le_eq)

section \<open>The claims about the access-log parser\<close>


text \<open>
  C3. The status of an emitted record is not confined to 100..599: the pattern takes any
  three digits, so a line may carry the status 999 (or 0).
\<close>

theorem status_out_of_range_counterexample:
  \<open>map_option status
     (parse_line no_time (''[t] "GET / HTTP/1.1" 999 12 "-" "ua" "1.2.3.4"'' @ [CHR 0x0A]))
   = Some (Some 999) \<and> \<not> (100 \<le> (999 :: int) \<and> (999 :: int) \<le> 599)\<close>
  by code_simp

text \<open>
  C3, amended. The status of an emitted record, when present, is an integer from 0 to 999,
  and it is present exactly when the status pattern is found in the line.
\<close>

theorem parse_line_status:
  assumes "parse_line strptime line = Some r"
  shows "(case status r of
            Some n \<Rightarrow> 0 \<le> n \<and> n \<le> 999 \<and> re_search status_re line \<noteq> None
          | None \<Rightarrow> re_search status_re line = None)"
proof -
  have g: "4 \<le> length (findall quoted_re 0 line)" "1 \<le> length (findall bracketed_re 0 line)"
    using assms parse_line_body_skip [of line strptime]
    by (auto simp: parse_line_def split: sum.splits option.splits)
  from parse_line_body_guard [OF g, of strptime] obtain st sz r' where
    ss: "status_size_of line = Inr (st, sz)" and b: "parse_line_body strptime line = Inr (Some r')"
    and st: "status r' = st"
    by force
  from b assms have "r' = r" by (simp add: parse_line_def)
  with st ss status_size_of_ok [of line] show ?thesis
    by (auto split: option.splits)
qed

theorem parse_line_status_witness:
  \<open>parse_line no_time (''[t] "GET / HTTP/1.1" 404 12 "-" "ua" "1.2.3.4"'' @ [CHR 0x0A]) =
     Some (row ''1.2.3.4'' (Some ''/'') (Some 404) (Some ''-'')\<lparr>size := Some 12\<rparr>)
   \<and> (0 :: int) \<le> 404 \<and> (404 :: int) \<le> 999
   \<and> re_search status_re (''[t] "GET / HTTP/1.1" 404 12 "-" "ua" "1.2.3.4"'' @ [CHR 0x0A]) \<noteq> None\<close>
proof -
  have h: \<open>parse_line no_time (''[t] "GET / HTTP/1.1" 404 12 "-" "ua" "1.2.3.4"'' @ [CHR 0x0A]) =
     Some (row ''1.2.3.4'' (Some ''/'') (Some 404) (Some ''-'')\<lparr>size := Some 12\<rparr>)\<close>
    by code_simp
  from parse_line_status [OF h] h show ?thesis
    by (simp add: row_def)
qed

section \<open>The client address\<close>

lemma py_split_first: "\<exists>ps. py_split sep s = takeWhile (\<lambda>c. c \<noteq> sep) s # ps"
  by (induction s) auto

lemma real_ip_of_eq:
  "real_ip_of chain = Inr (if chain = [] then ''-'' else first_entry chain)"
proof -
  obtain ps where "py_split CHR '','' chain = takeWhile (\<lambda>c. c \<noteq> CHR '','') chain # ps"
    using py_split_first by blast
  then show ?thesis
    by (simp add: real_ip_of_def py_index_def bindE_def first_entry_def)
qed


lemma one_Cons: "one P (c # cs) = (if P c then [cs] else [])"
  by (simp add: one_def)

lemma many_refl: "r \<in> set (many P r)"
  by (cases r) auto

lemma many_complete: "list_all P p \<Longrightarrow> r \<in> set (many P (p @ r))"
  by (induction p) (auto simp: many_refl)

lemma many1_complete: "p \<noteq> [] \<Longrightarrow> list_all P p \<Longrightarrow> r \<in> set (many1 P (p @ r))"
  by (cases p) (auto simp: many1_def seq_iff one_Cons many_complete)


lemma eol_iff: "r \<in> set (eol s) \<longleftrightarrow> r = s \<and> (s = [] \<or> s = [CHR 0x0A])"
  by (auto simp: eol_def)











lemma ip_regex_nonempty_iff:
  "ip_regex s \<noteq> [] \<longleftrightarrow>
     (\<exists>r. r \<in> set (seq digits_1_3 (seq (times 3 (seq (one (\<lambda>c. c = CHR ''.'')) digits_1_3)) eol) s))
     \<or> (\<exists>r. r \<in> set (seq (many1 is_hex_colon) eol s))"
proof -
  have "xs @ ys \<noteq> [] \<longleftrightarrow> (\<exists>r. r \<in> set xs) \<or> (\<exists>r. r \<in> set ys)" for xs ys :: "string list"
    by (cases xs; cases ys) auto
  then show ?thesis unfolding ip_regex_def by blast
qed

lemma hex_branch_iff:
  "(\<exists>r. r \<in> set (seq (many1 is_hex_colon) eol s)) \<longleftrightarrow>
     (\<exists>p e. s = p @ e \<and> p \<noteq> [] \<and> list_all is_hex_colon p \<and> (e = [] \<or> e = [CHR 0x0A]))"
  (is "?L \<longleftrightarrow> ?R")
proof
  assume ?L
  then obtain r m where m: "m \<in> set (many1 is_hex_colon s)" and r: "r \<in> set (eol m)"
    by (auto simp: seq_iff)
  from many1_sound [OF m] obtain p where "s = p @ m" "p \<noteq> []" "list_all is_hex_colon p" by blast
  moreover from r have "m = [] \<or> m = [CHR 0x0A]" by (auto simp: eol_iff)
  ultimately show ?R by blast
next
  assume ?R
  then obtain p e where s: "s = p @ e" and p: "p \<noteq> []" "list_all is_hex_colon p"
    and e: "e = [] \<or> e = [CHR 0x0A]" by blast
  from many1_complete [OF p, of e] s have "e \<in> set (many1 is_hex_colon s)" by simp
  moreover from e have "e \<in> set (eol e)" by (auto simp: eol_iff)
  ultimately show ?L by (auto simp: seq_iff)
qed

lemma hex_colon_shape_match: "hex_colon_shape s \<Longrightarrow> ip_regex_match s"
proof -
  assume "hex_colon_shape s"
  then have "s = s @ [] \<and> s \<noteq> [] \<and> list_all is_hex_colon s \<and> ([] = [] \<or> [] = [CHR 0x0A])"
    by (simp add: hex_colon_shape_def)
  then have "\<exists>r. r \<in> set (seq (many1 is_hex_colon) eol s)"
    unfolding hex_branch_iff by blast
  then have "ip_regex s \<noteq> []" unfolding ip_regex_nonempty_iff by blast
  then show ?thesis by (cases "ip_regex s") (auto simp: ip_regex_match_def re_match_def)
qed


lemma parse_line_ip:
  assumes "parse_line strptime line = Some r"
  shows "ip r = ip_of (if proxy_chain r = [] then ''-'' else first_entry (proxy_chain r))"
proof -
  have g: "4 \<le> length (findall quoted_re 0 line)" "1 \<le> length (findall bracketed_re 0 line)"
    using assms parse_line_body_skip [of line strptime]
    by (auto simp: parse_line_def split: sum.splits option.splits)
  from parse_line_body_guard [OF g, of strptime] obtain rip r' where
    rip: "real_ip_of (findall quoted_re 0 line ! 3) = Inr rip"
    and b: "parse_line_body strptime line = Inr (Some r')"
    and f: "ip r' = ip_of rip" "proxy_chain r' = findall quoted_re 0 line ! 3"
    by force
  from b assms have "r' = r" by (simp add: parse_line_def)
  with f rip show ?thesis by (auto simp: real_ip_of_eq split: if_splits)
qed






lemma hex_colon_plain: "is_hex_colon c \<Longrightarrow> \<not> is_space c \<and> c \<noteq> CHR '',''"
  by (auto simp: is_hex_colon_def is_space_def)

lemma first_entry_hex_colon:
  assumes "hex_colon_shape s"
  shows "first_entry s = s"
proof -
  from assms have ne: "s \<noteq> []" and all: "\<forall>c \<in> set s. \<not> is_space c \<and> c \<noteq> CHR '',''"
    using hex_colon_plain by (auto simp: hex_colon_shape_def list_all_iff)
  from all have t: "takeWhile (\<lambda>c. c \<noteq> CHR '','') s = s" by (simp add: takeWhile_eq_all_conv)
  from ne all have "\<not> is_space (hd s)" "\<not> is_space (last s)" by simp_all
  with ne have "dropWhile is_space s = s" "dropWhile is_space (rev s) = rev s"
    by (simp_all add: dropWhile_eq_self_iff hd_rev)
  then show ?thesis unfolding first_entry_def py_strip_def t by simp
qed

text \<open>
  C10. Every non-empty text of hexadecimal digits and colons passes the validation, also
  one without any dot or colon such as \<open>''deadbeef''\<close> or \<open>''12345''\<close>, and a line whose proxy
  chain is such a text has it as its address.
\<close>

theorem hex_colon_token_accepted:
  assumes "s \<noteq> []" "list_all is_hex_colon s"
  shows "ip_regex_match s \<and>
         (parse_line strptime line = Some r \<longrightarrow> proxy_chain r = s \<longrightarrow> ip r = s)"
proof -
  from assms have h: "hex_colon_shape s" by (simp add: hex_colon_shape_def)
  then have m: "ip_regex_match s" by (rule hex_colon_shape_match)
  have "ip r = s" if p: "parse_line strptime line = Some r" and c: "proxy_chain r = s"
    using parse_line_ip [OF p] c assms(1) first_entry_hex_colon [OF h] m
    by (simp add: ip_of_def)
  with m show ?thesis by blast
qed

theorem hex_colon_token_accepted_witness:
  \<open>''deadbeef'' \<noteq> [] \<and> list_all is_hex_colon ''deadbeef'' \<and> ip_regex_match ''deadbeef''
   \<and> CHR ''.'' \<notin> set ''deadbeef'' \<and> CHR '':'' \<notin> set ''deadbeef''
   \<and> parse_line no_time (''[t] "GET / HTTP/1.1" 200 12 "-" "ua" "deadbeef"'' @ [CHR 0x0A]) =
       Some (row ''deadbeef'' (Some ''/'') (Some 200) (Some ''-'')\<lparr>size := Some 12\<rparr>)
   \<and> ''12345'' \<noteq> [] \<and> list_all is_hex_colon ''12345'' \<and> ip_regex_match ''12345''
   \<and> parse_line no_time (''[t] "GET / HTTP/1.1" 200 12 "-" "ua" "12345"'' @ [CHR 0x0A]) =
       Some (row ''12345'' (Some ''/'') (Some 200) (Some ''-'')\<lparr>size := Some 12\<rparr>)\<close>
proof -
  have a1: "''deadbeef'' \<noteq> []" and a2: "list_all is_hex_colon ''deadbeef''"
    by (simp_all add: is_hex_colon_def)
  have b1: "''12345'' \<noteq> []" and b2: "list_all is_hex_colon ''12345''"
    by (simp_all add: is_hex_colon_def)
  have h1: \<open>parse_line no_time (''[t] "GET / HTTP/1.1" 200 12 "-" "ua" "deadbeef"'' @ [CHR 0x0A]) =
       Some (row ''deadbeef'' (Some ''/'') (Some 200) (Some ''-'')\<lparr>size := Some 12\<rparr>)\<close>
    by code_simp
  have h2: \<open>parse_line no_time (''[t] "GET / HTTP/1.1" 200 12 "-" "ua" "12345"'' @ [CHR 0x0A]) =
       Some (row ''12345'' (Some ''/'') (Some 200) (Some ''-'')\<lparr>size := Some 12\<rparr>)\<close>
    by code_simp
  have m1: "ip_regex_match ''deadbeef''" using hex_colon_token_accepted [OF a1 a2] by blast
  have m2: "ip_regex_match ''12345''" using hex_colon_token_accepted [OF b1 b2] by blast
  from m1 m2 a2 b2 h1 h2 show ?thesis by simp
qed

section \<open>The file extension\<close>










section \<open>The severity label of the error log\<close>

lemma lower_char_not_upper: "\<not> is_upper (lower_char c)"
proof (cases "is_upper c")
  case True
  then have "(of_char c :: nat) + 32 < 256"
    by (auto simp: is_upper_def Let_def)
  then have "of_char (char_of (of_char c + 32 :: nat) :: char) = (of_char c + 32 :: nat)"
    by (simp add: of_char_of)
  with True show ?thesis by (auto simp: lower_char_def is_upper_def Let_def)
next
  case False
  then show ?thesis by (simp add: lower_char_def)
qed

lemma lower_char_idem: "lower_char (lower_char c) = lower_char c"
  using lower_char_not_upper [of c] by (simp add: lower_char_def [of "lower_char c"])

lemma py_capitalize_lower:
  "py_capitalize (py_lower s) = (case py_lower s of [] \<Rightarrow> [] | c # cs \<Rightarrow> upper_char c # cs)"
  by (cases s) (simp_all add: py_lower_def lower_char_idem)

text \<open>
  C5. The fallback does not capitalise every word: the severity \<open>''Parse error''\<close> is
  labelled \<open>''Parse error''\<close>, where capitalising each word gives \<open>''Parse Error''\<close>.
\<close>

theorem severity_not_title_cased_counterexample:
  \<open>parse_php_error_line ''[t] PHP Parse error: x'' =
     Some \<lparr>err_time = ''t'', err_type = ''Parse error'', err_message = ''x''\<rparr>
   \<and> title_case ''parse error'' = ''Parse Error''
   \<and> ''Parse error'' \<noteq> title_case ''parse error''\<close>
  by code_simp

text \<open>
  C5, amended. For a line the pattern matches, the severity text is trimmed and lower-cased;
  \<open>''fatal error''\<close> is labelled \<open>''Fatal Error (Critical)''\<close>, \<open>''warning''\<close> is labelled
  \<open>''Warning''\<close>, \<open>''notice''\<close> is labelled \<open>''Info''\<close>, and any other text is labelled by
  itself in lower case with only its first character upper-cased.
\<close>

theorem severity_label:
  assumes "re_match php_re line = Some (tm, sev, msg)"
  shows "parse_php_error_line line =
     Some \<lparr>err_time = tm,
           err_type =
             (let t = py_lower (py_strip sev)
              in if t = ''fatal error'' then ''Fatal Error (Critical)''
                 else if t = ''warning'' then ''Warning''
                 else if t = ''notice'' then ''Info''
                 else (case t of [] \<Rightarrow> [] | c # cs \<Rightarrow> upper_char c # cs)),
           err_message = msg\<rparr>"
  using assms
  by (simp add: parse_php_error_line_def error_type_label_def Let_def py_capitalize_lower)

theorem severity_label_witness:
  \<open>re_match php_re ''[t] PHP Parse error: x'' = Some (''t'', ''Parse error'', ''x'')
   \<and> parse_php_error_line ''[t] PHP Parse error: x'' =
       Some \<lparr>err_time = ''t'', err_type = ''Parse error'', err_message = ''x''\<rparr>
   \<and> re_match php_re ''[t] PHP FATAL Error:  boom'' = Some (''t'', ''FATAL Error'', ''boom'')
   \<and> parse_php_error_line ''[t] PHP FATAL Error:  boom'' =
       Some \<lparr>err_time = ''t'', err_type = ''Fatal Error (Critical)'', err_message = ''boom''\<rparr>\<close>
proof -
  have h1: \<open>re_match php_re ''[t] PHP Parse error: x'' = Some (''t'', ''Parse error'', ''x'')\<close>
    by code_simp
  have h2: \<open>re_match php_re ''[t] PHP FATAL Error:  boom'' = Some (''t'', ''FATAL Error'', ''boom'')\<close>
    by code_simp
  have l1: "py_lower (py_strip ''Parse error'') = ''parse error''" by code_simp
  have l2: "py_lower (py_strip ''FATAL Error'') = ''fatal error''" by code_simp
  have u: "upper_char CHR ''p'' = CHR ''P''" by code_simp
  from severity_label [OF h1] severity_label [OF h2] h1 h2 show ?thesis
    by (simp add: l1 l2 u)
qed

section \<open>The brute-force detector\<close>










section \<open>Missing values, the input frame, and the error statistics\<close>





text \<open>
  C4. The SQL-injection and XSS detectors do not leave the input unchanged: a record
  without the column \<open>potential_sql_injection\<close> has it, set to false, after the call, and
  likewise \<open>potential_xss\<close>.
\<close>

theorem sql_detector_changes_input_counterexample:
  \<open>map potential_sql_injection [row ''1.2.3.4'' (Some ''/'') (Some 200) (Some ''-'')] = [None]
   \<and> map potential_sql_injection
        (fst (detect_sql_injection [row ''1.2.3.4'' (Some ''/'') (Some 200) (Some ''-'')]))
      = [Some False]
   \<and> map potential_xss
        (fst (detect_xss [row ''1.2.3.4'' (Some ''/'') (Some 200) (Some ''-'')]))
      = [Some False]
   \<and> fst (detect_sql_injection [row ''1.2.3.4'' (Some ''/'') (Some 200) (Some ''-'')])
      \<noteq> [row ''1.2.3.4'' (Some ''/'') (Some 200) (Some ''-'')]\<close>
  by code_simp

text \<open>
  C4, amended. The brute-force detector leaves the input frame unchanged. The SQL-injection
  detector sets the column \<open>potential_sql_injection\<close> on every record of the input frame,
  the XSS detector the column \<open>potential_xss\<close>, and they change nothing else: with that
  column put aside, the records, their number and their order are as before the call. The
  frame each of them returns holds the records of the input frame whose flag is true.
\<close>

theorem detectors_frame:
  "fst (detect_brute_force df) = df
   \<and> map (\<lambda>r. r\<lparr>potential_sql_injection := None\<rparr>) (fst (detect_sql_injection df)) =
       map (\<lambda>r. r\<lparr>potential_sql_injection := None\<rparr>) df
   \<and> map (\<lambda>r. r\<lparr>potential_xss := None\<rparr>) (fst (detect_xss df)) =
       map (\<lambda>r. r\<lparr>potential_xss := None\<rparr>) df
   \<and> list_all (\<lambda>r. potential_sql_injection r \<noteq> None) (fst (detect_sql_injection df))
   \<and> list_all (\<lambda>r. potential_xss r \<noteq> None) (fst (detect_xss df))
   \<and> snd (detect_sql_injection df) =
       filter (\<lambda>r. potential_sql_injection r = Some True) (fst (detect_sql_injection df))
   \<and> snd (detect_xss df) = filter (\<lambda>r. potential_xss r = Some True) (fst (detect_xss df))"
proof -
  have a: "fst (detect_brute_force df) = df"
    by (simp add: detect_brute_force_def Let_def)
  have b: "map (\<lambda>r. r\<lparr>potential_sql_injection := None\<rparr>) (fst (detect_sql_injection df)) =
       map (\<lambda>r. r\<lparr>potential_sql_injection := None\<rparr>) df"
    by (simp add: detect_sql_injection_def Let_def comp_def)
  have c: "map (\<lambda>r. r\<lparr>potential_xss := None\<rparr>) (fst (detect_xss df)) =
       map (\<lambda>r. r\<lparr>potential_xss := None\<rparr>) df"
    by (simp add: detect_xss_def Let_def comp_def)
  have d: "list_all (\<lambda>r. potential_sql_injection r \<noteq> None) (fst (detect_sql_injection df))"
    by (simp add: detect_sql_injection_def Let_def list_all_iff)
  have e: "list_all (\<lambda>r. potential_xss r \<noteq> None) (fst (detect_xss df))"
    by (simp add: detect_xss_def Let_def list_all_iff)
  have f: "snd (detect_sql_injection df) =
       filter (\<lambda>r. potential_sql_injection r = Some True) (fst (detect_sql_injection df))"
    by (simp add: detect_sql_injection_def Let_def)
  have g: "snd (detect_xss df) = filter (\<lambda>r. potential_xss r = Some True) (fst (detect_xss df))"
    by (simp add: detect_xss_def Let_def)
  from a b c d e f g show ?thesis by (simp only: simp_thms)
qed

text \<open>
  C2. With eleven records of status 500 and twelve records without a status, all of one
  address, the statistics of the source count eleven requests in total and report the
  address with the rate 1; counting all twenty-three records, the rate is 11/23 and the
  address is not reported.
\<close>

theorem high_error_ips_total_counts_known_status_only:
  \<open>high_error_ips
     (replicate 11 (row ''1.2.3.4'' (Some ''/'') (Some 500) (Some ''-'')) @
      replicate 12 (row ''1.2.3.4'' (Some ''/'') None (Some ''-'')))
     = [(''1.2.3.4'', 11, 11, 1)]
   \<and> high_error_ips_spec
     (replicate 11 (row ''1.2.3.4'' (Some ''/'') (Some 500) (Some ''-'')) @
      replicate 12 (row ''1.2.3.4'' (Some ''/'') None (Some ''-'')))
     = []\<close>
  by code_simp

end
